theory Spec2Isabelle
  imports Main "HOL-Library.Word"
begin

text \<open>
  A shallow embedding of the todo manager: the client's optimistic add and its sorted
  view (app/page.tsx), the structured-extraction endpoint and the summary endpoint.
  The storage backend, the inference provider and the host's clock, time zone, date
  parser and string functions are inputs of the functions that use them. The first half
  of the theory holds the definitions, the second half what is proved of them.
\<close>

section \<open>JavaScript strings\<close>

text \<open>
  A JavaScript string is a sequence of UTF-16 code units, and \<open>.length\<close> counts code
  units. ASCII literals of the source are embedded with \<open>ascii\<close>; the Korean
  placeholder is written out in code units where it is used.
\<close>

type_synonym jsstring = "16 word list"

definition ascii :: "string \<Rightarrow> jsstring" where
  "ascii s = map (\<lambda>c. of_nat (of_char c)) s"

text \<open>\<open>String.prototype.includes\<close>: the pattern occurs at some offset.\<close>

fun js_includes :: "jsstring \<Rightarrow> jsstring \<Rightarrow> bool" where
  "js_includes [] p = (p = [])"
| "js_includes (c # cs) p = (take (length p) (c # cs) = p \<or> js_includes cs p)"

text \<open>The decimal digits of a non-negative integer, as template literals print it.\<close>

fun decimal :: "nat \<Rightarrow> jsstring" where
  "decimal n = (if n < 10 then [of_nat (48 + n)]
                else decimal (n div 10) @ [of_nat (48 + n mod 10)])"

declare decimal.simps [simp del]

text \<open>\<open>x || null\<close> on an optional string: \<open>undefined\<close>, \<open>null\<close> and \<open>""\<close> are falsy.\<close>

definition truthy :: "jsstring option \<Rightarrow> bool" where
  "truthy v = (case v of None \<Rightarrow> False | Some s \<Rightarrow> s \<noteq> [])"

definition or_null :: "jsstring option \<Rightarrow> jsstring option" where
  "or_null v = (if truthy v then v else None)"


section \<open>The todo record (components/todo/types.ts)\<close>

datatype Priority = high | medium | low

text \<open>
  \<open>TodoData\<close> is the record the summary endpoint reads; the client's \<open>Todo\<close> adds
  \<open>user_id\<close>. The field \<open>id\<close> is named \<open>id_of\<close> here.
\<close>

record TodoData =
  id_of :: jsstring
  title :: jsstring
  description :: "jsstring option"
  due_date :: "jsstring option"
  priority :: Priority
  category :: "jsstring option"
  completed :: bool
  created_date :: jsstring

record Todo = TodoData +
  user_id :: jsstring

text \<open>\<open>TodoFormData\<close>: what the form submits. Optional fields are options.\<close>

record TodoFormData =
  form_title :: jsstring
  form_description :: "jsstring option"
  form_due_date :: "jsstring option"
  form_priority :: Priority
  form_category :: "jsstring option"
  form_completed :: "bool option"


section \<open>The client's optimistic add (app/page.tsx, handleAddTodo)\<close>

record AuthUser =
  user_ident :: jsstring

text \<open>The error object of the storage client, as the handler reads it.\<close>

record PostgrestError =
  code :: jsstring
  message :: jsstring

text \<open>
  The awaited insert resolves to \<open>{ data: newTodo, error }\<close>: either an error or the
  inserted row.
\<close>

type_synonym insert_response = "PostgrestError + Todo"

datatype notice =
    LoginRequired
  | SessionExpired
  | AddFailed jsstring
  | AddFailedDefault
  | AddSucceeded

text \<open>
  The part of the component state the handler touches: the todo list, the form flag,
  the toasts shown and the routes pushed.
\<close>

record page_state =
  todos :: "Todo list"
  showForm :: bool
  toasts :: "notice list"
  pushed :: "jsstring list"

definition tempId_of :: "nat \<Rightarrow> jsstring" where
  "tempId_of now = ascii ''temp-'' @ decimal now"

text \<open>
  \<open>now\<close> is the value of \<open>Date.now()\<close> and \<open>created\<close> the value of
  \<open>new Date().toISOString()\<close> read by the handler.
\<close>

definition optimisticTodo :: "AuthUser \<Rightarrow> TodoFormData \<Rightarrow> nat \<Rightarrow> jsstring \<Rightarrow> Todo" where
  "optimisticTodo u d now created =
     \<lparr> id_of = tempId_of now,
       title = form_title d,
       description = or_null (form_description d),
       due_date = or_null (form_due_date d),
       priority = form_priority d,
       category = or_null (form_category d),
       completed = (case form_completed d of None \<Rightarrow> False | Some b \<Rightarrow> b),
       created_date = created,
       user_id = user_ident u \<rparr>"

text \<open>The record built from the inserted row on success, field by field.\<close>

definition confirmedTodo :: "Todo \<Rightarrow> Todo" where
  "confirmedTodo newTodo =
     \<lparr> id_of = id_of newTodo,
       title = title newTodo,
       description = description newTodo,
       due_date = due_date newTodo,
       priority = priority newTodo,
       category = category newTodo,
       completed = completed newTodo,
       created_date = created_date newTodo,
       user_id = user_id newTodo \<rparr>"

text \<open>Before the await: \<open>setTodos((prev) => [optimisticTodo, ...prev])\<close>, \<open>setShowForm(false)\<close>.\<close>

definition add_begin :: "page_state \<Rightarrow> AuthUser \<Rightarrow> TodoFormData \<Rightarrow> nat \<Rightarrow> jsstring \<Rightarrow> page_state" where
  "add_begin st u d now created =
     st\<lparr> todos := optimisticTodo u d now created # todos st, showForm := False \<rparr>"

definition session_expired :: "PostgrestError \<Rightarrow> bool" where
  "session_expired e = (code e = ascii ''PGRST301'' \<or> js_includes (message e) (ascii ''JWT''))"

text \<open>
  After the await. On an error the functional update filters the temporary id out, then
  either the session-expiry branch returns or the error is thrown to the handler's own
  \<open>catch\<close>, which only shows a toast. On success the temporary entry is mapped to the
  confirmed record.
\<close>

definition add_finish :: "page_state \<Rightarrow> jsstring \<Rightarrow> insert_response \<Rightarrow> page_state" where
  "add_finish st tempId r =
     (case r of
        Inl e \<Rightarrow>
          (let st1 = st\<lparr> todos := filter (\<lambda>todo. id_of todo \<noteq> tempId) (todos st) \<rparr>
           in if session_expired e
              then st1\<lparr> toasts := toasts st1 @ [SessionExpired],
                        pushed := pushed st1 @ [ascii ''/login''] \<rparr>
              else st1\<lparr> toasts := toasts st1 @
                          [if message e = [] then AddFailedDefault else AddFailed (message e)] \<rparr>)
      | Inr newTodo \<Rightarrow>
          st\<lparr> todos := map (\<lambda>todo. if id_of todo = tempId then confirmedTodo newTodo else todo)
                           (todos st),
              toasts := toasts st @ [AddSucceeded] \<rparr>)"

definition handleAddTodo ::
  "page_state \<Rightarrow> AuthUser option \<Rightarrow> TodoFormData \<Rightarrow> nat \<Rightarrow> jsstring \<Rightarrow> insert_response \<Rightarrow> page_state" where
  "handleAddTodo st authUser d now created r =
     (case authUser of
        None \<Rightarrow> st\<lparr> toasts := toasts st @ [LoginRequired] \<rparr>
      | Some u \<Rightarrow> add_finish (add_begin st u d now created) (tempId_of now) r)"

subsection \<open>A concrete page state\<close>

definition example_user :: AuthUser where
  "example_user = \<lparr> user_ident = ascii ''u1'' \<rparr>"

definition example_todo :: Todo where
  "example_todo =
     \<lparr> id_of = ascii ''7c9e6679'', title = ascii ''report'', description = None,
       due_date = None, priority = medium, category = None, completed = False,
       created_date = ascii ''2023-11-13T08:00:00.000Z'', user_id = ascii ''u1'' \<rparr>"

definition example_form :: TodoFormData where
  "example_form =
     \<lparr> form_title = ascii ''call'', form_description = Some [], form_due_date = None,
       form_priority = high, form_category = None, form_completed = None \<rparr>"

definition example_row :: Todo where
  "example_row =
     \<lparr> id_of = ascii ''3f2504e0'', title = ascii ''call'', description = None,
       due_date = None, priority = high, category = None, completed = False,
       created_date = ascii ''2023-11-14T22:13:21.512Z'', user_id = ascii ''u1'' \<rparr>"

definition example_error :: PostgrestError where
  "example_error = \<lparr> code = ascii ''23514'', message = ascii ''check violation'' \<rparr>"

definition example_state :: page_state where
  "example_state = \<lparr> todos = [example_todo], showForm = True, toasts = [], pushed = [] \<rparr>"

text \<open>A state whose list already holds a record with the id \<open>temp-7\<close>.\<close>

definition stale_todo :: Todo where
  "stale_todo =
     \<lparr> id_of = ascii ''temp-7'', title = ascii ''earlier'', description = None,
       due_date = None, priority = low, category = None, completed = False,
       created_date = ascii ''1970-01-01T00:00:00.007Z'', user_id = ascii ''u1'' \<rparr>"

definition stale_state :: page_state where
  "stale_state =
     \<lparr> todos = [stale_todo, example_todo], showForm = True, toasts = [], pushed = [] \<rparr>"


section \<open>Dates (the host's Date object)\<close>

text \<open>
  A Date holds a time value, the milliseconds since the epoch; an invalid Date (NaN) is
  \<open>None\<close> where one can arise. The day arithmetic follows the definitions of the
  language standard (Day, DayFromYear, YearFromTime, MonthFromTime, DateFromTime,
  MakeDay). \<open>YearFromDay\<close> computes the standard's "largest year whose first day is
  not after the day" from an estimate that is off by at most one.
\<close>

definition msPerDay :: int where
  "msPerDay = 86400000"

definition Day :: "int \<Rightarrow> int" where
  "Day t = t div msPerDay"

definition DayFromYear :: "int \<Rightarrow> int" where
  "DayFromYear y =
     365 * (y - 1970) + (y - 1969) div 4 - (y - 1901) div 100 + (y - 1601) div 400"

definition InLeapYear :: "int \<Rightarrow> bool" where
  "InLeapYear y = (y mod 4 = 0 \<and> (y mod 100 \<noteq> 0 \<or> y mod 400 = 0))"

definition YearFromDay :: "int \<Rightarrow> int" where
  "YearFromDay d =
     (let y = 1970 + (400 * d) div 146097
      in if d < DayFromYear y then y - 1
         else if DayFromYear (y + 1) \<le> d then y + 1
         else y)"

text \<open>
  The number of days of the year before month \<open>m\<close> (0 = January; 12 stands for the
  end of the year).
\<close>

definition month_start :: "bool \<Rightarrow> int \<Rightarrow> int" where
  "month_start leap m =
     [0, 31, 59, 90, 120, 151, 181, 212, 243, 273, 304, 334, 365] ! nat m
       + (if leap \<and> 2 \<le> m then 1 else 0)"

definition MonthFromDay :: "int \<Rightarrow> int" where
  "MonthFromDay d =
     (let y = YearFromDay d; leap = InLeapYear y; w = d - DayFromYear y
      in if w < month_start leap 1 then 0
         else if w < month_start leap 2 then 1
         else if w < month_start leap 3 then 2
         else if w < month_start leap 4 then 3
         else if w < month_start leap 5 then 4
         else if w < month_start leap 6 then 5
         else if w < month_start leap 7 then 6
         else if w < month_start leap 8 then 7
         else if w < month_start leap 9 then 8
         else if w < month_start leap 10 then 9
         else if w < month_start leap 11 then 10
         else 11)"

definition DateFromDay :: "int \<Rightarrow> int" where
  "DateFromDay d =
     (let y = YearFromDay d
      in d - DayFromYear y - month_start (InLeapYear y) (MonthFromDay d) + 1)"

text \<open>MakeDay for a month index in 0..11; a date past the month's end runs on.\<close>

definition MakeDay :: "int \<Rightarrow> int \<Rightarrow> int \<Rightarrow> int" where
  "MakeDay y m dt = DayFromYear y + month_start (InLeapYear y) m + dt - 1"


subsection \<open>Printing: the date part of toISOString\<close>

definition digit :: "nat \<Rightarrow> 16 word" where
  "digit n = of_nat (48 + n)"

definition pad2 :: "nat \<Rightarrow> jsstring" where
  "pad2 n = [digit (n div 10 mod 10), digit (n mod 10)]"

definition pad4 :: "nat \<Rightarrow> jsstring" where
  "pad4 n = [digit (n div 1000 mod 10), digit (n div 100 mod 10),
             digit (n div 10 mod 10), digit (n mod 10)]"

definition pad6 :: "nat \<Rightarrow> jsstring" where
  "pad6 n = [digit (n div 100000 mod 10), digit (n div 10000 mod 10)] @ pad4 n"

text \<open>Years 0 to 9999 print with four digits, the others with a sign and six.\<close>

definition iso_year :: "int \<Rightarrow> jsstring" where
  "iso_year y =
     (if 0 \<le> y \<and> y \<le> 9999 then pad4 (nat y)
      else (if y < 0 then 0x2D else 0x2B) # pad6 (nat \<bar>y\<bar>))"

text \<open>\<open>d.toISOString().split("T")[0]\<close>: the calendar date in UTC.\<close>

definition toISODate :: "int \<Rightarrow> jsstring" where
  "toISODate t =
     (let d = Day t
      in iso_year (YearFromDay d) @ [0x2D] @ pad2 (nat (MonthFromDay d + 1))
           @ [0x2D] @ pad2 (nat (DateFromDay d)))"

subsection \<open>Parsing the date-only form\<close>

definition is_digit :: "16 word \<Rightarrow> bool" where
  "is_digit c = (0x30 \<le> c \<and> c \<le> 0x39)"

definition digit_val :: "16 word \<Rightarrow> nat" where
  "digit_val c = unat c - 48"

definition number_of :: "jsstring \<Rightarrow> nat" where
  "number_of ds = foldl (\<lambda>n c. 10 * n + digit_val c) 0 ds"

text \<open>\<open>/^\d{4}-\d{2}-\d{2}$/.test(s)\<close>\<close>

definition dateRegex_test :: "jsstring \<Rightarrow> bool" where
  "dateRegex_test s =
     (length s = 10 \<and> list_all is_digit (take 4 s) \<and> s ! 4 = 0x2D
      \<and> list_all is_digit (take 2 (drop 5 s)) \<and> s ! 7 = 0x2D
      \<and> list_all is_digit (drop 8 s))"

text \<open>\<open>/^\d{2}:\d{2}$/.test(s)\<close>\<close>

definition timeRegex_test :: "jsstring \<Rightarrow> bool" where
  "timeRegex_test s =
     (length s = 5 \<and> list_all is_digit (take 2 s) \<and> s ! 2 = 0x3A
      \<and> list_all is_digit (drop 3 s))"

text \<open>
  \<open>new Date(s)\<close> for a string of the form YYYY-MM-DD: midnight UTC of that date. The
  server's engine takes months 1 to 12 and days 1 to 31 (a day past the month's end
  runs on into the next month) and gives an invalid Date otherwise.
\<close>

definition year_of :: "jsstring \<Rightarrow> int" where
  "year_of s = int (number_of (take 4 s))"

definition month_of :: "jsstring \<Rightarrow> int" where
  "month_of s = int (number_of (take 2 (drop 5 s)))"

definition date_of :: "jsstring \<Rightarrow> int" where
  "date_of s = int (number_of (drop 8 s))"

definition parse_date_only :: "jsstring \<Rightarrow> int option" where
  "parse_date_only s =
     (let y = year_of s; m = month_of s; d = date_of s
      in if 1 \<le> m \<and> m \<le> 12 \<and> 1 \<le> d \<and> d \<le> 31
         then Some (MakeDay y (m - 1) d * msPerDay) else None)"



text \<open>
  \<open>d.setHours(0, 0, 0, 0)\<close>: midnight of the local day of \<open>t\<close>, for a server whose
  local time is \<open>tz\<close> minutes ahead of UTC. The offset is fixed: a change of
  daylight-saving time between the two instants compared is not modelled.
\<close>

definition startOfLocalDay :: "int \<Rightarrow> int \<Rightarrow> int" where
  "startOfLocalDay tz t =
     ((t + tz * 60000) div msPerDay) * msPerDay - tz * 60000"


section \<open>The structured-extraction endpoint\<close>

subsection \<open>Input preprocessing and validation\<close>

text \<open>The code units that \<open>trim\<close> strips and \<open>\s\<close> matches.\<close>

definition is_space :: "16 word \<Rightarrow> bool" where
  "is_space c =
     (c \<in> {0x9, 0xA, 0xB, 0xC, 0xD, 0x20, 0xA0, 0x1680, 0x2028, 0x2029, 0x202F,
            0x205F, 0x3000, 0xFEFF}
      \<or> (0x2000 \<le> c \<and> c \<le> 0x200A))"

definition trim :: "jsstring \<Rightarrow> jsstring" where
  "trim s = rev (dropWhile is_space (rev (dropWhile is_space s)))"

text \<open>\<open>s.replace(/\s+/g, " ")\<close>: every maximal run of whitespace becomes one space.\<close>

function collapse :: "jsstring \<Rightarrow> jsstring" where
  "collapse [] = []"
| "collapse (c # cs) =
     (if is_space c then 0x20 # collapse (dropWhile is_space cs) else c # collapse cs)"
  by pat_completeness auto
termination
  by (relation "measure length") (auto simp: le_imp_less_Suc length_dropWhile_le)

definition preprocessInput :: "jsstring \<Rightarrow> jsstring" where
  "preprocessInput input = collapse (trim input)"

definition INPUT_MIN_LENGTH :: nat where "INPUT_MIN_LENGTH = 2"
definition INPUT_MAX_LENGTH :: nat where "INPUT_MAX_LENGTH = 500"
definition TITLE_MIN_LENGTH :: nat where "TITLE_MIN_LENGTH = 2"
definition TITLE_MAX_LENGTH :: nat where "TITLE_MAX_LENGTH = 100"

datatype validation_error = EmptyInput | TooShort | TooLong

text \<open>\<open>None\<close> is \<open>{ valid: true }\<close>.\<close>

definition validateInput :: "jsstring \<Rightarrow> validation_error option" where
  "validateInput input =
     (if input = [] \<or> length (trim input) = 0 then Some EmptyInput
      else if length input < INPUT_MIN_LENGTH then Some TooShort
      else if length input > INPUT_MAX_LENGTH then Some TooLong
      else None)"

subsection \<open>Post-processing of the model's object\<close>

text \<open>The object of \<open>todoSchema\<close>; its fields carry the prefix \<open>s_\<close>.\<close>

record todoSchema =
  s_title :: jsstring
  s_description :: "jsstring option"
  s_due_date :: jsstring
  s_due_time :: "jsstring option"
  s_priority :: Priority
  s_category :: "jsstring option"

text \<open>The placeholder title, U+D560 U+0020 U+C77C.\<close>

definition placeholder :: jsstring where
  "placeholder = [0xD560, 0x20, 0xC77C]"

definition postprocess_title :: "jsstring \<Rightarrow> jsstring" where
  "postprocess_title t =
     (let title = (if t = [] then placeholder else t)
      in if length title < TITLE_MIN_LENGTH then placeholder
         else if length title > TITLE_MAX_LENGTH
              then take (TITLE_MAX_LENGTH - 3) title @ ascii ''...''
         else title)"

text \<open>
  The comparison \<open>dueDateOnly < todayStart\<close> is false when the parsed Date is invalid.
\<close>

definition postprocess_due_date :: "int \<Rightarrow> int \<Rightarrow> jsstring \<Rightarrow> jsstring" where
  "postprocess_due_date tz today dueDate =
     (if dateRegex_test dueDate
      then (case parse_date_only dueDate of
              None \<Rightarrow> dueDate
            | Some dueDateObj \<Rightarrow>
                if startOfLocalDay tz dueDateObj < startOfLocalDay tz today
                then toISODate today else dueDate)
      else dueDate)"

definition postprocessTodoData :: "int \<Rightarrow> todoSchema \<Rightarrow> int \<Rightarrow> todoSchema" where
  "postprocessTodoData tz todoData today =
     todoData\<lparr> s_title := postprocess_title (s_title todoData),
               s_due_date := postprocess_due_date tz today (s_due_date todoData),
               s_due_time := Some (if truthy (s_due_time todoData)
                                   then the (s_due_time todoData) else ascii ''09:00''),
               s_priority := s_priority todoData \<rparr>"


subsection \<open>The request handler\<close>

text \<open>
  What \<open>request.json()\<close> gives: a rejection, \<open>null\<close> (destructuring it throws, and
  the handler's outer \<open>catch\<close> answers), or a value whose \<open>input\<close> property is a string
  or anything else.
\<close>

datatype json_input = JString jsstring | JOther

datatype request_body = Unparseable | JsonNull | Json json_input

text \<open>
  The inference provider either throws (with an optional message and status) or returns
  an object of the schema.
\<close>

datatype ai_result = AiError "jsstring option" "nat option" | AiObject todoSchema

text \<open>What a call sends that depends on the request: the input and the instant.\<close>

record extraction_prompt =
  p_input :: jsstring
  p_today :: int

text \<open>
  The error bodies of both endpoints; \<open>TodosMissing\<close> and \<open>BadPeriod\<close> are the summary
  endpoint's.
\<close>

datatype api_error =
    NotConfigured
  | BadJson
  | InputNotString
  | Invalid validation_error
  | QuotaExceeded
  | AiFailed
  | BadDateFormat
  | BadTimeFormat
  | TodosMissing
  | BadPeriod
  | ServerError

record todo_json =
  r_title :: jsstring
  r_description :: "jsstring option"
  r_due_date :: jsstring
  r_priority :: Priority
  r_category :: "jsstring option"
  r_completed :: bool

datatype 'a response = Failure nat api_error | Success nat 'a

definition message_has :: "jsstring option \<Rightarrow> string \<Rightarrow> bool" where
  "message_has m w = (case m of None \<Rightarrow> False | Some s \<Rightarrow> js_includes s (ascii w))"

definition quota_error :: "jsstring option \<Rightarrow> nat option \<Rightarrow> bool" where
  "quota_error m st =
     (message_has m ''quota'' \<or> message_has m ''rate limit'' \<or> message_has m ''429''
      \<or> st = Some 429)"

text \<open>
  The handler returns its response together with the calls it made to the provider, in
  order. \<open>env\<close> is the credential variable, \<open>tz\<close> the server's offset and \<open>today\<close> the
  instant \<open>new Date()\<close> gives.
\<close>

definition POST_todo ::
  "jsstring option \<Rightarrow> request_body \<Rightarrow> int \<Rightarrow> int \<Rightarrow> (extraction_prompt \<Rightarrow> ai_result)
     \<Rightarrow> todo_json response \<times> extraction_prompt list" where
  "POST_todo env body tz today generateObject =
     (if \<not> truthy env then (Failure 500 NotConfigured, [])
      else case body of
        Unparseable \<Rightarrow> (Failure 400 BadJson, [])
      | JsonNull \<Rightarrow> (Failure 500 ServerError, [])
      | Json JOther \<Rightarrow> (Failure 400 InputNotString, [])
      | Json (JString input) \<Rightarrow>
          (let preprocessedInput = preprocessInput input
           in case validateInput preprocessedInput of
                Some e \<Rightarrow> (Failure 400 (Invalid e), [])
              | None \<Rightarrow>
                  (let prompt = \<lparr> p_input = preprocessedInput, p_today = today \<rparr>
                   in case generateObject prompt of
                        AiError m st \<Rightarrow>
                          (if quota_error m st then (Failure 429 QuotaExceeded, [prompt])
                           else (Failure 500 AiFailed, [prompt]))
                      | AiObject rawTodoData \<Rightarrow>
                          (let todoData = postprocessTodoData tz rawTodoData today
                           in if \<not> dateRegex_test (s_due_date todoData)
                              then (Failure 500 BadDateFormat, [prompt])
                              else if \<not> timeRegex_test
                                         (if truthy (s_due_time todoData)
                                          then the (s_due_time todoData) else ascii ''09:00'')
                              then (Failure 500 BadTimeFormat, [prompt])
                              else (Success 200
                                      \<lparr> r_title = s_title todoData,
                                        r_description = or_null (s_description todoData),
                                        r_due_date = s_due_date todoData @ ascii ''T''
                                          @ the (s_due_time todoData) @ ascii '':00'',
                                        r_priority = s_priority todoData,
                                        r_category = or_null (s_category todoData),
                                        r_completed = False \<rparr>,
                                    [prompt])))))"


text \<open>A provider that always throws, for the concrete requests below.\<close>

definition failing_provider :: "extraction_prompt \<Rightarrow> ai_result" where
  "failing_provider p = AiError None None"



definition example_today :: int where
  "example_today = 1748905200000"


section \<open>The summary endpoint\<close>


text \<open>
  The filter of \<open>urgentTasks\<close>. \<open>tomorrow\<close> is local midnight of \<open>now\<close> moved on by one
  day; a comparison with an invalid Date is false.
\<close>

definition is_urgent :: "int \<Rightarrow> (jsstring \<Rightarrow> int option) \<Rightarrow> int \<Rightarrow> 'a TodoData_scheme \<Rightarrow> bool" where
  "is_urgent tz Date_parse now todo =
     (let todayForAnalysis = startOfLocalDay tz now;
          tomorrow = todayForAnalysis + msPerDay
      in if completed todo then False
         else if priority todo = high then True
         else if truthy (due_date todo)
              then (case Date_parse (the (due_date todo)) of
                      None \<Rightarrow> False
                    | Some dueDate \<Rightarrow> startOfLocalDay tz dueDate \<le> tomorrow)
         else False)"

definition urgentTasks ::
  "int \<Rightarrow> (jsstring \<Rightarrow> int option) \<Rightarrow> int \<Rightarrow> 'a TodoData_scheme list \<Rightarrow> jsstring list" where
  "urgentTasks tz Date_parse now items =
     take 5 (map title (filter (is_urgent tz Date_parse now) items))"

subsection \<open>Completion rates: double arithmetic and toFixed\<close>

text \<open>
  The rates are \<open>((completed / total) * 100).toFixed(1)\<close> on numbers, which are IEEE 754
  binary64 values. A positive double is written \<open>m / 2 ^ s\<close> or \<open>m * 2 ^ k / 2 ^ s\<close> with
  natural numbers; an operation rounds its exact result to 53 significant bits, a tie
  to the even significand. The exponent is not bounded in the model: the values here lie
  between \<open>1 / total\<close> and 100, and the model is for \<open>completed \<le> total\<close>, as the counts
  are.
\<close>

fun bit_length :: "nat \<Rightarrow> nat" where
  "bit_length n = (if n = 0 then 0 else Suc (bit_length (n div 2)))"

declare bit_length.simps [simp del]

text \<open>The integer nearest to \<open>a / b\<close>, a tie to the even one.\<close>

definition round_half_even :: "nat \<Rightarrow> nat \<Rightarrow> nat" where
  "round_half_even a b =
     (let q = a div b; r = a mod b
      in if 2 * r < b then q
         else if b < 2 * r then q + 1
         else if even q then q else q + 1)"

text \<open>
  \<open>c / t\<close>: the pair \<open>(m, s)\<close> stands for \<open>m / 2 ^ s\<close>, with \<open>s\<close> chosen so that
  \<open>c * 2 ^ s / t\<close> lies between \<open>2 ^ 52\<close> and \<open>2 ^ 53\<close>.
\<close>

definition double_quotient :: "nat \<Rightarrow> nat \<Rightarrow> nat \<times> nat" where
  "double_quotient c t =
     (if c = 0 then (0, 0)
      else let s0 = 53 + bit_length t - bit_length c;
               s = (if 2 ^ 53 * t \<le> c * 2 ^ s0 then s0 - 1 else s0)
           in (round_half_even (c * 2 ^ s) t, s))"

text \<open>
  \<open>q * 100\<close>: the triple \<open>(m, k, s)\<close> stands for \<open>m * 2 ^ k / 2 ^ s\<close>; the exact product
  \<open>100 * fst q / 2 ^ s\<close> loses its lowest \<open>k\<close> bits when it has more than 53.
\<close>

definition double_times_100 :: "nat \<times> nat \<Rightarrow> nat \<times> nat \<times> nat" where
  "double_times_100 q =
     (let p = 100 * fst q; k = bit_length p - 53
      in (round_half_even p (2 ^ k), k, snd q))"

text \<open>
  \<open>x.toFixed(1)\<close> takes the integer \<open>n\<close> with \<open>n / 10\<close> nearest to \<open>x\<close>, the larger one of
  two, that is \<open>\<lfloor>10 * x + 1 / 2\<rfloor>\<close>, and prints its digits with a point before the
  last.
\<close>

definition toFixed1_tenths :: "nat \<times> nat \<times> nat \<Rightarrow> nat" where
  "toFixed1_tenths x =
     (case x of (m, k, s) \<Rightarrow> (20 * m * 2 ^ k + 2 ^ s) div 2 ^ (s + 1))"

definition tenths :: "nat \<Rightarrow> nat \<Rightarrow> nat" where
  "tenths c t = toFixed1_tenths (double_times_100 (double_quotient c t))"

definition fixed1 :: "nat \<Rightarrow> jsstring" where
  "fixed1 n = decimal (n div 10) @ [0x2E, digit (n mod 10)]"

text \<open>\<open>t > 0 ? ((c / t) * 100).toFixed(1) : "0.0"\<close>\<close>

definition percent_fixed1 :: "nat \<Rightarrow> nat \<Rightarrow> jsstring" where
  "percent_fixed1 c t = (if t > 0 then fixed1 (tenths c t) else ascii ''0.0'')"

definition completionRate :: "'a TodoData_scheme list \<Rightarrow> jsstring" where
  "completionRate items =
     (let total = length items;
          completedCount = length (filter completed items)
      in percent_fixed1 completedCount total)"

definition highCompletionRate :: "'a TodoData_scheme list \<Rightarrow> jsstring" where
  "highCompletionRate items =
     (let highPriority = filter (\<lambda>todo. priority todo = high) items;
          highCompleted = length (filter completed highPriority)
      in percent_fixed1 highCompleted (length highPriority))"

definition mediumCompletionRate :: "'a TodoData_scheme list \<Rightarrow> jsstring" where
  "mediumCompletionRate items =
     (let mediumPriority = filter (\<lambda>todo. priority todo = medium) items;
          mediumCompleted = length (filter completed mediumPriority)
      in percent_fixed1 mediumCompleted (length mediumPriority))"

definition lowCompletionRate :: "'a TodoData_scheme list \<Rightarrow> jsstring" where
  "lowCompletionRate items =
     (let lowPriority = filter (\<lambda>todo. priority todo = low) items;
          lowCompleted = length (filter completed lowPriority)
      in percent_fixed1 lowCompleted (length lowPriority))"

text \<open>
  The rate as the specification words it: \<open>100 * c / t\<close> rounded to one decimal place
  (a tie to the even digit, as \<open>round\<close> does; rounding a tie up gives the same below),
  and "0.0" for an empty group.
\<close>

definition rounded_percent :: "nat \<Rightarrow> nat \<Rightarrow> jsstring" where
  "rounded_percent c t =
     (if t > 0 then fixed1 (round_half_even (1000 * c) t) else ascii ''0.0'')"

text \<open>
  A rate string is a nearest tenth of \<open>100 * c / t\<close> when it prints some \<open>n / 10\<close> that
  is within one twentieth of it; for an empty group it is "0.0".
\<close>

definition nearest_tenth_rate :: "jsstring \<Rightarrow> nat \<Rightarrow> nat \<Rightarrow> bool" where
  "nearest_tenth_rate r c t =
     (if t = 0 then r = ascii ''0.0''
      else \<exists>n \<in> {0..1000}. r = fixed1 n \<and> 2 * \<bar>int n * int t - 1000 * int c\<bar> \<le> int t)"

text \<open>Eighty todos of medium priority, 23 of them completed.\<close>

definition done_todo :: TodoData where
  "done_todo =
     \<lparr> id_of = ascii ''d1'', title = ascii ''done'', description = None,
       due_date = None, priority = medium, category = None,
       completed = True, created_date = ascii ''2025-05-20T08:00:00.000Z'' \<rparr>"

definition open_todo :: TodoData where
  "open_todo =
     \<lparr> id_of = ascii ''d2'', title = ascii ''open'', description = None,
       due_date = None, priority = medium, category = None,
       completed = False, created_date = ascii ''2025-05-20T08:00:00.000Z'' \<rparr>"

definition eighty_todos :: "TodoData list" where
  "eighty_todos = replicate 23 done_todo @ replicate 57 open_todo"

subsection \<open>The request handler of the summary\<close>

text \<open>The request body: \<open>todos\<close> is an array or not, \<open>period\<close> a string or not.\<close>

datatype json_todos = NotArray | Array "TodoData list"

datatype json_period = PString jsstring | POther

datatype summary_body = SUnparseable | SJsonNull | SJson json_todos json_period

text \<open>The texts of a response: the handler's fixed sentences, or text of the model.\<close>

datatype summary_text =
    NoTodosToday
  | NoTodosThisWeek
  | AddTodosInsight
  | AddTodoRecommendation
  | Generated jsstring

record summary_json =
  summary :: summary_text
  r_urgentTasks :: "jsstring list"
  insights :: "summary_text list"
  recommendations :: "summary_text list"

text \<open>The object of \<open>summarySchema\<close>; the lists may be missing.\<close>

record summaryObject =
  o_summary :: jsstring
  o_urgentTasks :: "jsstring list option"
  o_insights :: "jsstring list option"
  o_recommendations :: "jsstring list option"

datatype summary_result = SummaryError "jsstring option" "nat option" | SummaryObject summaryObject

text \<open>
  What a call sends that depends on the request: the period, the list, the four rates
  and the urgent titles counted in the prompt. The other statistics are text of the
  prompt.
\<close>

record summary_prompt =
  sp_period :: jsstring
  sp_todos :: "TodoData list"
  sp_completionRate :: jsstring
  sp_highCompletionRate :: jsstring
  sp_mediumCompletionRate :: jsstring
  sp_lowCompletionRate :: jsstring
  sp_urgent :: "jsstring list"

text \<open>
  The day-of-week statistics index a table with \<open>getDay()\<close> of each todo's creation
  date: when a \<open>created_date\<close> does not parse the index is NaN, the table entry is
  undefined and its update throws; the handler's outer \<open>catch\<close> answers 500, before any
  call to the provider.
\<close>

definition POST_summary ::
  "jsstring option \<Rightarrow> summary_body \<Rightarrow> int \<Rightarrow> (jsstring \<Rightarrow> int option) \<Rightarrow> int
     \<Rightarrow> (summary_prompt \<Rightarrow> summary_result)
     \<Rightarrow> summary_json response \<times> summary_prompt list" where
  "POST_summary env body tz Date_parse now generateObject =
     (if \<not> truthy env then (Failure 500 NotConfigured, [])
      else case body of
        SUnparseable \<Rightarrow> (Failure 400 BadJson, [])
      | SJsonNull \<Rightarrow> (Failure 500 ServerError, [])
      | SJson NotArray period \<Rightarrow> (Failure 400 TodosMissing, [])
      | SJson (Array items) period \<Rightarrow>
          (if period \<noteq> PString (ascii ''today'') \<and> period \<noteq> PString (ascii ''week'')
           then (Failure 400 BadPeriod, [])
           else if length items = 0
           then (Success 200
                   \<lparr> summary = (if period = PString (ascii ''today'')
                                 then NoTodosToday else NoTodosThisWeek),
                     r_urgentTasks = [],
                     insights = [AddTodosInsight],
                     recommendations = [AddTodoRecommendation] \<rparr>, [])
           else if list_ex (\<lambda>todo. Date_parse (created_date todo) = None) items
           then (Failure 500 ServerError, [])
           else
             (let urgent = urgentTasks tz Date_parse now items;
                  prompt = \<lparr> sp_period = (case period of PString p \<Rightarrow> p | POther \<Rightarrow> []),
                             sp_todos = items,
                             sp_completionRate = completionRate items,
                             sp_highCompletionRate = highCompletionRate items,
                             sp_mediumCompletionRate = mediumCompletionRate items,
                             sp_lowCompletionRate = lowCompletionRate items,
                             sp_urgent = urgent \<rparr>
              in case generateObject prompt of
                   SummaryError m st \<Rightarrow>
                     (if quota_error m st then (Failure 429 QuotaExceeded, [prompt])
                      else (Failure 500 AiFailed, [prompt]))
                 | SummaryObject obj \<Rightarrow>
                     (Success 200
                        \<lparr> summary = Generated (o_summary obj),
                          r_urgentTasks = (case o_urgentTasks obj of
                                             None \<Rightarrow> urgent | Some u \<Rightarrow> u),
                          insights = (case o_insights obj of
                                        None \<Rightarrow> [] | Some i \<Rightarrow> map Generated i),
                          recommendations = (case o_recommendations obj of
                                               None \<Rightarrow> [] | Some r \<Rightarrow> map Generated r) \<rparr>,
                      [prompt]))))"




text \<open>Concrete requests: a parser for date-only strings, a provider, two todos.\<close>

definition date_only_parser :: "jsstring \<Rightarrow> int option" where
  "date_only_parser s = (if dateRegex_test s then parse_date_only s else None)"

definition failing_summary_provider :: "summary_prompt \<Rightarrow> summary_result" where
  "failing_summary_provider p = SummaryError None None"




section \<open>The client's derived view (app/page.tsx, filteredAndSortedTodos)\<close>


datatype SortOption = by_priority | by_due_date | by_created_date | by_title

definition priorityOrder :: "Priority \<Rightarrow> int" where
  "priorityOrder p = (case p of high \<Rightarrow> 3 | medium \<Rightarrow> 2 | low \<Rightarrow> 1)"

text \<open>
  A difference of two \<open>getTime()\<close> values; with an invalid Date it is NaN, which the
  sort takes as 0.
\<close>

definition time_difference :: "int option \<Rightarrow> int option \<Rightarrow> int" where
  "time_difference x y =
     (case x of None \<Rightarrow> 0 | Some p \<Rightarrow> (case y of None \<Rightarrow> 0 | Some q \<Rightarrow> p - q))"

text \<open>
  The comparator handed to \<open>sort\<close>. \<open>Date_parse\<close> and \<open>localeCompare\<close> are the host's.
\<close>

definition compareTodos ::
  "SortOption \<Rightarrow> (jsstring \<Rightarrow> int option) \<Rightarrow> (jsstring \<Rightarrow> jsstring \<Rightarrow> int)
     \<Rightarrow> 'a TodoData_scheme \<Rightarrow> 'a TodoData_scheme \<Rightarrow> int" where
  "compareTodos sortBy Date_parse localeCompare a b =
     (case sortBy of
        by_priority \<Rightarrow> priorityOrder (priority b) - priorityOrder (priority a)
      | by_due_date \<Rightarrow>
          if \<not> truthy (due_date a) then 1
          else if \<not> truthy (due_date b) then - 1
          else time_difference (Date_parse (the (due_date a))) (Date_parse (the (due_date b)))
      | by_created_date \<Rightarrow>
          time_difference (Date_parse (created_date b)) (Date_parse (created_date a))
      | by_title \<Rightarrow> localeCompare (title a) (title b))"

text \<open>
  \<open>Array.prototype.sort\<close> with a comparator, as a stable insertion sort: each element,
  in turn, goes in front of the first element already placed that the comparator puts
  after it (a negative result).
\<close>

fun insert_by :: "('a \<Rightarrow> 'a \<Rightarrow> int) \<Rightarrow> 'a \<Rightarrow> 'a list \<Rightarrow> 'a list" where
  "insert_by cmp x [] = [x]"
| "insert_by cmp x (y # ys) = (if cmp x y < 0 then x # y # ys else y # insert_by cmp x ys)"

definition js_sort :: "('a \<Rightarrow> 'a \<Rightarrow> int) \<Rightarrow> 'a list \<Rightarrow> 'a list" where
  "js_sort cmp xs = foldl (\<lambda>placed x. insert_by cmp x placed) [] xs"







text \<open>A list is dated-first when no todo without a due date stands before one with.\<close>

definition dated_first :: "'a TodoData_scheme list \<Rightarrow> bool" where
  "dated_first xs =
     (\<forall>i j. i < j \<and> j < length xs \<and> \<not> truthy (due_date (xs ! i)) \<longrightarrow>
            \<not> truthy (due_date (xs ! j)))"


section \<open>Properties of the optimistic add\<close>

lemma optimisticTodo_id: "id_of (optimisticTodo u d now created) = tempId_of now"
  by (simp add: optimisticTodo_def)

lemma confirmedTodo_eq: "confirmedTodo newTodo = newTodo"
  by (simp add: confirmedTodo_def)

lemma todos_add_failed:
  "todos (handleAddTodo st (Some u) d now created (Inl e)) =
     filter (\<lambda>todo. id_of todo \<noteq> tempId_of now) (todos st)"
  by (simp add: handleAddTodo_def add_finish_def add_begin_def Let_def optimisticTodo_id)

lemma todos_add_succeeded:
  "todos (handleAddTodo st (Some u) d now created (Inr newTodo)) =
     newTodo # map (\<lambda>todo. if id_of todo = tempId_of now then newTodo else todo) (todos st)"
  by (simp add: handleAddTodo_def add_finish_def add_begin_def optimisticTodo_id confirmedTodo_eq)

text \<open>
  C1, as the claim states it, fails: the rollback removes every record whose id is the
  temporary id, so when the list before the add already holds a record with that id (an
  add at the same millisecond whose insert is still awaited), the list after the
  rollback is not the list before the add.
\<close>

theorem stale_temporary_id_counterexample:
  "todos stale_state = [stale_todo, example_todo]
   \<and> todos (handleAddTodo stale_state (Some example_user) example_form 7
              (ascii ''1970-01-01T00:00:00.007Z'') (Inl example_error)) = [example_todo]"
proof -
  have "tempId_of 7 = ascii ''temp-7''"
    by (simp add: tempId_of_def decimal.simps ascii_def)
  moreover have "id_of example_todo \<noteq> ascii ''temp-7''"
    by (simp add: example_todo_def ascii_def)
  ultimately show ?thesis
    by (simp add: todos_add_failed stale_state_def stale_todo_def)
qed

text \<open>
  C1, amended. When the insert comes back with an error, no record with the temporary
  id remains in the list after the rollback; and the list after the rollback is the
  list before the add provided no record of that list already carried the temporary
  id.
\<close>

theorem add_failure_rolls_back:
  "(\<forall>t \<in> set (todos (handleAddTodo st (Some u) d now created (Inl e))).
      id_of t \<noteq> tempId_of now)
   \<and> ((\<forall>t \<in> set (todos st). id_of t \<noteq> tempId_of now) \<longrightarrow>
        todos (handleAddTodo st (Some u) d now created (Inl e)) = todos st)"
proof -
  have "filter (\<lambda>todo. id_of todo \<noteq> tempId_of now) (todos st) = todos st"
    if "\<forall>t \<in> set (todos st). id_of t \<noteq> tempId_of now"
    using that by (simp add: filter_id_conv)
  then show ?thesis
    by (simp add: todos_add_failed)
qed

theorem add_failure_rolls_back_witness:
  "id_of example_todo \<noteq> tempId_of 1700000000000
   \<and> todos example_state = [example_todo]
   \<and> todos (handleAddTodo example_state (Some example_user) example_form 1700000000000
              (ascii ''2023-11-14T22:13:20.000Z'') (Inl example_error)) = [example_todo]"
proof -
  have fresh: "id_of example_todo \<noteq> tempId_of 1700000000000"
    by (simp add: example_todo_def tempId_of_def ascii_def)
  have st: "todos example_state = [example_todo]"
    by (simp add: example_state_def)
  have "\<forall>t \<in> set (todos example_state). id_of t \<noteq> tempId_of 1700000000000"
    using fresh st by simp
  with add_failure_rolls_back [of example_state example_user example_form 1700000000000
      "ascii ''2023-11-14T22:13:20.000Z''" example_error] fresh st
  show ?thesis
    by simp
qed

text \<open>
  C2. When the insert succeeds with a row whose id is not the temporary id (the backend
  assigns its own ids), no record of the resulting list carries the temporary id, and
  the list is the optimistic list with the temporary entry replaced, at its own
  position, by the server's row: its head is that row, with the server's id and
  created_date, and every other position is unchanged.
\<close>

theorem add_success_replaces_temporary:
  assumes "id_of newTodo \<noteq> tempId_of now"
  shows "(\<forall>t \<in> set (todos (handleAddTodo st (Some u) d now created (Inr newTodo))).
            id_of t \<noteq> tempId_of now)
         \<and> length (todos (handleAddTodo st (Some u) d now created (Inr newTodo))) =
             length (todos (add_begin st u d now created))
         \<and> (\<forall>i < length (todos (add_begin st u d now created)).
              todos (handleAddTodo st (Some u) d now created (Inr newTodo)) ! i =
                (if id_of (todos (add_begin st u d now created) ! i) = tempId_of now
                 then newTodo else todos (add_begin st u d now created) ! i))
         \<and> id_of (hd (todos (handleAddTodo st (Some u) d now created (Inr newTodo)))) =
             id_of newTodo
         \<and> created_date (hd (todos (handleAddTodo st (Some u) d now created (Inr newTodo)))) =
             created_date newTodo"
proof -
  let ?mid = "todos (add_begin st u d now created)"
  let ?after = "todos (handleAddTodo st (Some u) d now created (Inr newTodo))"
  have after: "?after = map (\<lambda>todo. if id_of todo = tempId_of now then newTodo else todo) ?mid"
    by (simp add: handleAddTodo_def add_finish_def confirmedTodo_eq)
  have hd_mid: "?mid = optimisticTodo u d now created # todos st"
    by (simp add: add_begin_def)
  have "\<forall>t \<in> set ?after. id_of t \<noteq> tempId_of now"
    unfolding after using assms by auto
  moreover have "length ?after = length ?mid"
    unfolding after by simp
  moreover have "\<forall>i < length ?mid. ?after ! i =
      (if id_of (?mid ! i) = tempId_of now then newTodo else ?mid ! i)"
    unfolding after by simp
  moreover have "hd ?after = newTodo"
    unfolding after hd_mid by (simp add: optimisticTodo_id)
  ultimately show ?thesis
    by simp
qed

theorem add_success_replaces_temporary_witness:
  "id_of example_row \<noteq> tempId_of 1700000000000
   \<and> todos (handleAddTodo example_state (Some example_user) example_form 1700000000000
              (ascii ''2023-11-14T22:13:20.000Z'') (Inr example_row))
       = [example_row, example_todo]
   \<and> list_all (\<lambda>t. id_of t \<noteq> tempId_of 1700000000000)
        (todos (handleAddTodo example_state (Some example_user) example_form
                1700000000000 (ascii ''2023-11-14T22:13:20.000Z'') (Inr example_row)))"
proof -
  have server_id: "id_of example_row \<noteq> tempId_of 1700000000000"
    by (simp add: example_row_def tempId_of_def ascii_def)
  have fresh: "id_of example_todo \<noteq> tempId_of 1700000000000"
    by (simp add: example_todo_def tempId_of_def ascii_def)
  have "todos (handleAddTodo example_state (Some example_user) example_form 1700000000000
              (ascii ''2023-11-14T22:13:20.000Z'') (Inr example_row))
       = [example_row, example_todo]"
    using fresh by (simp add: todos_add_succeeded example_state_def)
  with add_success_replaces_temporary [OF server_id] server_id fresh show ?thesis
    by (simp add: list_all_iff)
qed

section \<open>Properties of the extraction endpoint\<close>

subsection \<open>Credential check and input validation\<close>

lemma POST_todo_unconfigured:
  "\<not> truthy env \<Longrightarrow> POST_todo env body tz today g = (Failure 500 NotConfigured, [])"
  by (simp add: POST_todo_def)

lemma validateInput_bounds:
  "length s < 2 \<or> 500 < length s \<Longrightarrow> validateInput s \<noteq> None"
  by (auto simp: validateInput_def INPUT_MIN_LENGTH_def INPUT_MAX_LENGTH_def)

lemma POST_todo_invalid:
  assumes "truthy env" and "validateInput (preprocessInput input) = Some e"
  shows "POST_todo env (Json (JString input)) tz today g = (Failure 400 (Invalid e), [])"
  using assms by (simp add: POST_todo_def)

text \<open>
  C3, as the claim states it, fails: with the credential variable unset the endpoint
  answers 500 to a request whose input is one character long.
\<close>

theorem short_input_unconfigured_counterexample:
  "length (preprocessInput (ascii ''a'')) < 2
   \<and> POST_todo None (Json (JString (ascii ''a''))) 0 0 failing_provider
       = (Failure 500 NotConfigured, [])"
  by (simp add: POST_todo_def truthy_def preprocessInput_def trim_def ascii_def is_space_def)

text \<open>
  C3, amended. While the credential is configured, every request whose input is a string
  that, after trimming and collapsing whitespace runs, is shorter than 2 or longer than
  500 code units gets a 400 response carrying a validation error, and the provider is
  not called.
\<close>

theorem invalid_length_rejected:
  assumes "truthy env"
      and "length (preprocessInput input) < 2 \<or> 500 < length (preprocessInput input)"
  shows "\<exists>e. POST_todo env (Json (JString input)) tz today g = (Failure 400 (Invalid e), [])"
proof -
  from assms(2) obtain e where "validateInput (preprocessInput input) = Some e"
    using validateInput_bounds by blast
  with assms(1) show ?thesis
    by (auto simp: POST_todo_invalid)
qed

theorem invalid_length_rejected_witness:
  "truthy (Some (ascii ''key''))
   \<and> length (preprocessInput (ascii '' a  '')) < 2
   \<and> POST_todo (Some (ascii ''key'')) (Json (JString (ascii '' a  ''))) 540 0
        failing_provider = (Failure 400 (Invalid TooShort), [])"
proof -
  have k: "truthy (Some (ascii ''key''))"
    by (simp add: truthy_def ascii_def)
  have pre: "preprocessInput (ascii '' a  '') = ascii ''a''"
    by (simp add: preprocessInput_def trim_def ascii_def is_space_def)
  have short: "length (preprocessInput (ascii '' a  '')) < 2"
    by (simp add: pre) (simp add: ascii_def)
  from invalid_length_rejected [OF k disjI1, OF short, of 540 0 failing_provider]
  obtain e where r: "POST_todo (Some (ascii ''key'')) (Json (JString (ascii '' a  ''))) 540 0
        failing_provider = (Failure 400 (Invalid e), [])"
    by blast
  have "validateInput (ascii ''a'') = Some TooShort"
    by (simp add: validateInput_def trim_def ascii_def is_space_def INPUT_MIN_LENGTH_def)
  then have "POST_todo (Some (ascii ''key'')) (Json (JString (ascii '' a  ''))) 540 0
        failing_provider = (Failure 400 (Invalid TooShort), [])"
    using k by (simp add: POST_todo_def pre)
  with r k short show ?thesis
    by simp
qed

text \<open>
  C10. While the credential variable is unset (or empty), every request gets the 500
  response of the credential check, whatever its body: unparseable, \<open>null\<close>, without a
  string input, or with an input of any length. The provider is not called.
\<close>

theorem unconfigured_always_500:
  assumes "env = None \<or> env = Some []"
  shows "POST_todo env body tz today g = (Failure 500 NotConfigured, [])"
  using assms by (auto simp: POST_todo_def truthy_def)

theorem unconfigured_always_500_witness:
  "POST_todo None Unparseable 0 0 failing_provider = (Failure 500 NotConfigured, [])
   \<and> POST_todo None (Json (JString (ascii ''a''))) 0 0 failing_provider
       = (Failure 500 NotConfigured, [])"
  using unconfigured_always_500 [of None Unparseable 0 0 failing_provider]
        unconfigured_always_500 [of None "Json (JString (ascii ''a''))" 0 0 failing_provider]
  by simp

section \<open>Properties of the calendar functions\<close>

subsection \<open>The year of a day\<close>

















subsection \<open>Digits\<close>





subsection \<open>Date strings\<close>












section \<open>Properties of the post-processing\<close>












section \<open>Properties of the summary endpoint\<close>










text \<open>
  C7, as the claim states it, fails: with the credential variable unset, a request with
  an empty list and period today gets the 500 response of the credential check.
\<close>

theorem empty_todos_unconfigured_counterexample:
  "POST_summary None (SJson (Array []) (PString (ascii ''today''))) 0 date_only_parser
     example_today failing_summary_provider = (Failure 500 NotConfigured, [])"
  by (simp add: POST_summary_def truthy_def)

text \<open>
  C7, amended. While the credential is configured, a request with an empty list and
  period today or week gets the fixed zero-data summary with status 200, and the
  provider is not called.
\<close>

theorem empty_todos_canned:
  assumes "truthy env" and "period = ascii ''today'' \<or> period = ascii ''week''"
  shows "POST_summary env (SJson (Array []) (PString period)) tz Date_parse now g =
           (Success 200
              \<lparr> summary = (if period = ascii ''today'' then NoTodosToday else NoTodosThisWeek),
                r_urgentTasks = [],
                insights = [AddTodosInsight],
                recommendations = [AddTodoRecommendation] \<rparr>, [])"
  using assms by (auto simp: POST_summary_def)

theorem empty_todos_canned_witness:
  "truthy (Some (ascii ''key''))
   \<and> POST_summary (Some (ascii ''key'')) (SJson (Array []) (PString (ascii ''today''))) 0
        date_only_parser example_today failing_summary_provider
       = (Success 200 \<lparr> summary = NoTodosToday, r_urgentTasks = [],
            insights = [AddTodosInsight], recommendations = [AddTodoRecommendation] \<rparr>, [])
   \<and> POST_summary (Some (ascii ''key'')) (SJson (Array []) (PString (ascii ''week''))) 0
        date_only_parser example_today failing_summary_provider
       = (Success 200 \<lparr> summary = NoTodosThisWeek, r_urgentTasks = [],
            insights = [AddTodosInsight], recommendations = [AddTodoRecommendation] \<rparr>, [])"
proof -
  have k: "truthy (Some (ascii ''key''))"
    by (simp add: truthy_def ascii_def)
  have ne: "ascii ''week'' \<noteq> ascii ''today''"
    by (simp add: ascii_def)
  from empty_todos_canned [OF k disjI1 [OF refl], of 0 date_only_parser example_today
      failing_summary_provider]
    empty_todos_canned [OF k disjI2 [OF refl], of 0 date_only_parser example_today
      failing_summary_provider] k ne
  show ?thesis by simp
qed

section \<open>Properties of the derived view\<close>

lemma dated_first_Nil: "dated_first []"
  by (simp add: dated_first_def)

lemma dated_first_Cons:
  "dated_first (x # xs) \<longleftrightarrow>
     dated_first xs \<and> (\<not> truthy (due_date x) \<longrightarrow> (\<forall>y \<in> set xs. \<not> truthy (due_date y)))"
proof
  assume a: "dated_first (x # xs)"
  have "dated_first xs"
    unfolding dated_first_def
  proof (intro allI impI)
    fix i j assume "i < j \<and> j < length xs \<and> \<not> truthy (due_date (xs ! i))"
    then have "Suc i < Suc j \<and> Suc j < length (x # xs) \<and> \<not> truthy (due_date ((x # xs) ! Suc i))"
      by simp
    with a have "\<not> truthy (due_date ((x # xs) ! Suc j))"
      unfolding dated_first_def by blast
    then show "\<not> truthy (due_date (xs ! j))" by simp
  qed
  moreover have "\<forall>y \<in> set xs. \<not> truthy (due_date y)" if u: "\<not> truthy (due_date x)"
  proof
    fix y assume "y \<in> set xs"
    then obtain k where k: "k < length xs" "xs ! k = y" by (auto simp: in_set_conv_nth)
    then have "0 < Suc k \<and> Suc k < length (x # xs) \<and> \<not> truthy (due_date ((x # xs) ! 0))"
      using u by simp
    with a have "\<not> truthy (due_date ((x # xs) ! Suc k))"
      unfolding dated_first_def by blast
    with k show "\<not> truthy (due_date y)" by simp
  qed
  ultimately show "dated_first xs \<and>
      (\<not> truthy (due_date x) \<longrightarrow> (\<forall>y \<in> set xs. \<not> truthy (due_date y)))"
    by blast
next
  assume a: "dated_first xs \<and>
      (\<not> truthy (due_date x) \<longrightarrow> (\<forall>y \<in> set xs. \<not> truthy (due_date y)))"
  show "dated_first (x # xs)"
    unfolding dated_first_def
  proof (intro allI impI)
    fix i j assume h: "i < j \<and> j < length (x # xs) \<and> \<not> truthy (due_date ((x # xs) ! i))"
    then obtain j' where j': "j = Suc j'" "j' < length xs" by (cases j) auto
    show "\<not> truthy (due_date ((x # xs) ! j))"
    proof (cases i)
      case 0
      with h a j' show ?thesis by auto
    next
      case (Suc i')
      with h j' have "i' < j' \<and> j' < length xs \<and> \<not> truthy (due_date (xs ! i'))" by simp
      with a have "\<not> truthy (due_date (xs ! j'))" unfolding dated_first_def by blast
      with j' show ?thesis by simp
    qed
  qed
qed

lemma set_insert_by: "set (insert_by cmp x ys) = insert x (set ys)"
  by (induction ys) auto

lemma length_insert_by: "length (insert_by cmp x ys) = Suc (length ys)"
  by (induction ys) auto




lemma set_foldl_insert_by:
  "set (foldl (\<lambda>placed x. insert_by cmp x placed) acc xs) = set acc \<union> set xs"
  by (induction xs arbitrary: acc) (auto simp: set_insert_by)

lemma length_foldl_insert_by:
  "length (foldl (\<lambda>placed x. insert_by cmp x placed) acc xs) = length acc + length xs"
  by (induction xs arbitrary: acc) (auto simp: length_insert_by)

lemma set_js_sort: "set (js_sort cmp xs) = set xs"
  by (simp add: js_sort_def set_foldl_insert_by)

lemma length_js_sort: "length (js_sort cmp xs) = length xs"
  by (simp add: js_sort_def length_foldl_insert_by)



text \<open>
  The same holds of any arrangement in which no element stands directly before one that
  the comparator puts in front of it, which is all a sort need establish.
\<close>

lemma no_descent_dated_first:
  assumes "\<forall>k. Suc k < length ys \<longrightarrow>
             \<not> compareTodos by_due_date Date_parse localeCompare (ys ! Suc k) (ys ! k) < 0"
  shows "dated_first ys"
  using assms
proof (induction ys)
  case Nil
  show ?case by (rule dated_first_Nil)
next
  case (Cons x xs)
  have step: "\<forall>k. Suc k < length xs \<longrightarrow>
      \<not> compareTodos by_due_date Date_parse localeCompare (xs ! Suc k) (xs ! k) < 0"
  proof (intro allI impI)
    fix k assume "Suc k < length xs"
    then have "Suc (Suc k) < length (x # xs)" by simp
    with Cons.prems
    have "\<not> compareTodos by_due_date Date_parse localeCompare
              ((x # xs) ! Suc (Suc k)) ((x # xs) ! Suc k) < 0"
      by blast
    then show "\<not> compareTodos by_due_date Date_parse localeCompare (xs ! Suc k) (xs ! k) < 0"
      by simp
  qed
  then have xs: "dated_first xs" by (rule Cons.IH)
  have "\<forall>y \<in> set xs. \<not> truthy (due_date y)" if u: "\<not> truthy (due_date x)"
  proof (cases xs)
    case Nil
    then show ?thesis by simp
  next
    case (Cons y zs)
    from Cons.prems [rule_format, of 0] Cons
    have "\<not> compareTodos by_due_date Date_parse localeCompare y x < 0" by simp
    with u have "\<not> truthy (due_date y)"
      by (auto simp: compareTodos_def split: if_splits)
    with xs Cons show ?thesis by (simp add: dated_first_Cons)
  qed
  with xs show ?case by (simp add: dated_first_Cons)
qed



subsection \<open>Completion rates\<close>

lemma round_half_even_error:
  assumes "0 < b"
  shows "2 * \<bar>int (round_half_even a b) * int b - int a\<bar> \<le> int b"
proof -
  define q r where "q = a div b" and "r = a mod b"
  have a: "int a = int q * int b + int r"
    unfolding q_def r_def by (metis of_nat_add of_nat_mult div_mult_mod_eq)
  have r: "int r < int b" using assms by (simp add: r_def)
  have rn: "0 \<le> int r" by simp
  have e: "int (q + 1) * int b = int q * int b + int b" by (simp add: algebra_simps)
  consider "2 * r < b" | "b < 2 * r" | "2 * r = b" by linarith
  then show ?thesis
  proof cases
    case 1
    then have "round_half_even a b = q"
      by (simp add: round_half_even_def q_def r_def Let_def)
    with 1 a show ?thesis by simp
  next
    case 2
    then have "round_half_even a b = q + 1"
      by (simp add: round_half_even_def q_def r_def Let_def)
    then have "int (round_half_even a b) * int b - int a = int b - int r"
      using a e by simp
    with 2 r show ?thesis by simp
  next
    case 3
    then have "round_half_even a b = q \<or> round_half_even a b = q + 1"
      by (simp add: round_half_even_def q_def r_def Let_def)
    then have "int (round_half_even a b) * int b - int a = - int r
        \<or> int (round_half_even a b) * int b - int a = int b - int r"
      using a e by auto
    with 3 r show ?thesis by auto
  qed
qed

lemma bit_length_bounds:
  "0 < n \<Longrightarrow> 2 ^ (bit_length n - 1) \<le> n \<and> n < 2 ^ bit_length n"
proof (induction n rule: bit_length.induct)
  case (1 n)
  show ?case
  proof (cases "n div 2 = 0")
    case True
    with 1 have "n = 1" by (simp add: div_eq_0_iff) 
    then show ?thesis by (simp add: bit_length.simps)
  next
    case False
    with "1.IH" "1.prems" have ih: "2 ^ (bit_length (n div 2) - 1) \<le> n div 2"
      "n div 2 < 2 ^ bit_length (n div 2)" by auto
    from False have pos: "0 < bit_length (n div 2)" by (simp add: bit_length.simps)
    have b: "bit_length n = Suc (bit_length (n div 2))"
      using "1.prems" by (subst bit_length.simps) simp
    have "2 ^ (bit_length n - 1) = 2 * 2 ^ (bit_length (n div 2) - 1)"
      unfolding b using pos by (cases "bit_length (n div 2)") simp_all
    also have "\<dots> \<le> 2 * (n div 2)" using ih(1) by simp
    also have "\<dots> \<le> n" by simp
    finally have lo: "2 ^ (bit_length n - 1) \<le> n" .
    have "n < 2 * (n div 2) + 2" by linarith
    also have "\<dots> \<le> 2 * 2 ^ bit_length (n div 2)" using ih(2) by simp
    finally have "n < 2 ^ bit_length n" unfolding b by simp
    with lo show ?thesis by simp
  qed
qed

lemma bit_length_mono: "a \<le> b \<Longrightarrow> bit_length a \<le> bit_length b"
proof (induction a arbitrary: b rule: bit_length.induct)
  case (1 a)
  show ?case
  proof (cases "a = 0")
    case True
    then show ?thesis by (simp add: bit_length.simps)
  next
    case False
    with "1.prems" have "b \<noteq> 0" by simp
    from "1.prems" have "a div 2 \<le> b div 2" by (rule div_le_mono)
    with "1.IH" False have "bit_length (a div 2) \<le> bit_length (b div 2)" by simp
    with False \<open>b \<noteq> 0\<close> show ?thesis
      by (subst bit_length.simps, subst (2) bit_length.simps) simp
  qed
qed

lemma bit_length_le:
  "n < 2 ^ k \<Longrightarrow> bit_length n \<le> k"
proof (rule ccontr)
  assume n: "n < 2 ^ k" and "\<not> bit_length n \<le> k"
  then have k: "k \<le> bit_length n - 1" and pos: "0 < n"
    by (auto simp: bit_length.simps split: if_splits) 
  then have "(2::nat) ^ k \<le> 2 ^ (bit_length n - 1)" by (intro power_increasing) simp_all
  with bit_length_bounds [OF pos] n show False by linarith
qed

lemma double_quotient_facts:
  assumes "0 < c" "c \<le> t"
  obtains m s where "double_quotient c t = (m, s)" "52 \<le> s"
    "2 * \<bar>int m * int t - int c * 2 ^ s\<bar> \<le> int t" "m \<le> 2 ^ 53"
proof -
  define s0 where "s0 = 53 + bit_length t - bit_length c"
  define s where "s = (if 2 ^ 53 * t \<le> c * 2 ^ s0 then s0 - 1 else s0)"
  define m where "m = round_half_even (c * 2 ^ s) t"
  from assms have t: "0 < t" by simp
  have dq: "double_quotient c t = (m, s)"
    using assms(1) by (simp add: double_quotient_def Let_def s0_def s_def m_def)
  have "bit_length c \<le> bit_length t" using assms(2) by (rule bit_length_mono)
  then have s0: "s0 = 53 + (bit_length t - bit_length c)" "53 \<le> s0"
    and sum: "bit_length c + s0 = 53 + bit_length t"
    by (simp_all add: s0_def)
  from s0(2) have s52: "52 \<le> s" by (auto simp: s_def)
  have lt: "c * 2 ^ s < 2 ^ 53 * t"
  proof (cases "2 ^ 53 * t \<le> c * 2 ^ s0")
    case False
    then show ?thesis by (simp add: s_def)
  next
    case True
    then have s: "s = s0 - 1" by (simp add: s_def)
    from bit_length_bounds [OF assms(1)] have "c * 2 ^ s0 < 2 ^ bit_length c * 2 ^ s0"
      by simp
    also have "\<dots> = 2 ^ (53 + bit_length t)"
      by (simp add: power_add [symmetric] sum)
    also have "\<dots> = 2 ^ 54 * 2 ^ (bit_length t - 1)"
    proof -
      from t have "0 < bit_length t" by (simp add: bit_length.simps)
      then have "53 + bit_length t = 54 + (bit_length t - 1)" by simp
      then show ?thesis by (simp only: power_add)
    qed
    also have "\<dots> \<le> 2 ^ 54 * t"
      using bit_length_bounds [OF t] by simp
    finally have "c * 2 ^ s0 < 2 ^ 54 * t" .
    moreover from s0(2) have "(2::nat) ^ s0 = 2 * 2 ^ (s0 - 1)"
      by (cases s0) simp_all
    ultimately show ?thesis unfolding s by simp
  qed
  have err: "2 * \<bar>int m * int t - int c * 2 ^ s\<bar> \<le> int t"
    using round_half_even_error [OF t, of "c * 2 ^ s"] by (simp add: m_def)
  have "m \<le> 2 ^ 53"
  proof (rule ccontr)
    assume "\<not> m \<le> 2 ^ 53"
    then have "2 ^ 53 + 1 \<le> m" by simp
    then have "(2 ^ 53 + 1) * t \<le> m * t" by (rule mult_right_mono) simp
    then have "int ((2 ^ 53 + 1) * t) \<le> int (m * t)" by (simp only: of_nat_le_iff)
    then have a: "2 ^ 53 * int t + int t \<le> int m * int t" by (simp add: algebra_simps)
    from lt have "int (c * 2 ^ s) < int (2 ^ 53 * t)" by (simp only: of_nat_less_iff)
    then have b: "int c * 2 ^ s < 2 ^ 53 * int t" by simp
    define x y z d where "x = int m * int t" and "y = int c * 2 ^ s" and "z = int t"
      and "d = \<bar>int m * int t - int c * 2 ^ s\<bar>"
    have "9007199254740992 * z + z \<le> x" "y < 9007199254740992 * z" "2 * d \<le> z"
      "0 \<le> z" "x - y \<le> d"
      using a b err by (simp_all add: x_def y_def z_def d_def)
    then show False by linarith
  qed
  with dq s52 err that show ?thesis by blast
qed

lemma double_times_100_facts:
  assumes "m \<le> 2 ^ 53"
  obtains m2 k where "double_times_100 (m, s) = (m2, k, s)" "k \<le> 7"
    "2 * \<bar>int m2 * 2 ^ k - 100 * int m\<bar> \<le> 2 ^ k"
proof -
  define k where "k = bit_length (100 * m) - 53"
  define m2 where "m2 = round_half_even (100 * m) (2 ^ k)"
  have d: "double_times_100 (m, s) = (m2, k, s)"
    by (simp add: double_times_100_def Let_def k_def m2_def)
  from assms have "100 * m \<le> 100 * 2 ^ 53" by simp
  also have "\<dots> < (2::nat) ^ 60" by simp
  finally have "bit_length (100 * m) \<le> 60" by (rule bit_length_le)
  then have k7: "k \<le> 7" by (simp add: k_def)
  have "2 * \<bar>int m2 * int (2 ^ k) - int (100 * m)\<bar> \<le> int (2 ^ k)"
    unfolding m2_def by (rule round_half_even_error) simp
  then have "2 * \<bar>int m2 * 2 ^ k - 100 * int m\<bar> \<le> 2 ^ k" by simp
  with d k7 that show ?thesis by blast
qed

text \<open>
  The scaling of the quotient and of the product is the binade of the exact value, so
  the two roundings keep 53 significant bits.
\<close>

lemma double_quotient_normal:
  assumes "0 < c" "c \<le> t"
  shows "2 ^ 52 * t \<le> c * 2 ^ snd (double_quotient c t)
       \<and> c * 2 ^ snd (double_quotient c t) < 2 ^ 53 * t"
proof -
  define s0 where "s0 = 53 + bit_length t - bit_length c"
  define s where "s = (if 2 ^ 53 * t \<le> c * 2 ^ s0 then s0 - 1 else s0)"
  from assms have t: "0 < t" by simp
  have dq: "snd (double_quotient c t) = s"
    using assms(1) by (simp add: double_quotient_def Let_def s0_def s_def)
  have "bit_length c \<le> bit_length t" using assms(2) by (rule bit_length_mono)
  then have s0: "53 \<le> s0" and sum: "bit_length c + s0 = 53 + bit_length t"
    by (simp_all add: s0_def)
  from s0 have half: "(2::nat) ^ s0 = 2 * 2 ^ (s0 - 1)" by (cases s0) simp_all
  from assms(1) have bc: "0 < bit_length c" by (simp add: bit_length.simps)
  have "2 ^ 52 * t < 2 ^ 52 * 2 ^ bit_length t"
    using bit_length_bounds [OF t] by simp
  also have "\<dots> = 2 ^ (bit_length c - 1) * 2 ^ s0"
  proof -
    from bc sum have "52 + bit_length t = (bit_length c - 1) + s0" by simp
    then show ?thesis by (simp only: power_add [symmetric])
  qed
  also have "\<dots> \<le> c * 2 ^ s0"
    using bit_length_bounds [OF assms(1)] by simp
  finally have lo0: "2 ^ 52 * t < c * 2 ^ s0" .
  have "c * 2 ^ s0 < 2 ^ bit_length c * 2 ^ s0"
    using bit_length_bounds [OF assms(1)] by simp
  also have "\<dots> = 2 ^ (53 + bit_length t)"
    by (simp add: power_add [symmetric] sum)
  also have "\<dots> = 2 ^ 54 * 2 ^ (bit_length t - 1)"
  proof -
    from t have "0 < bit_length t" by (simp add: bit_length.simps)
    then have "53 + bit_length t = 54 + (bit_length t - 1)" by simp
    then show ?thesis by (simp only: power_add)
  qed
  also have "\<dots> \<le> 2 ^ 54 * t"
    using bit_length_bounds [OF t] by simp
  finally have hi0: "c * 2 ^ s0 < 2 ^ 54 * t" .
  show ?thesis
  proof (cases "2 ^ 53 * t \<le> c * 2 ^ s0")
    case True
    then have "s = s0 - 1" by (simp add: s_def)
    with True hi0 half show ?thesis unfolding dq by simp
  next
    case False
    then have "s = s0" by (simp add: s_def)
    with False lo0 show ?thesis unfolding dq by simp
  qed
qed

lemma double_times_100_normal:
  assumes "53 < bit_length (100 * m)"
  shows "2 ^ 52 * 2 ^ (bit_length (100 * m) - 53) \<le> 100 * m
       \<and> 100 * m < 2 ^ 53 * 2 ^ (bit_length (100 * m) - 53)"
proof -
  define l where "l = bit_length (100 * m)"
  from assms have pos: "0 < 100 * m" by (auto simp: bit_length.simps split: if_splits)
  from assms have e: "l - 1 = 52 + (l - 53)" "l = 53 + (l - 53)" by (simp_all add: l_def)
  from bit_length_bounds [OF pos] have "2 ^ (l - 1) \<le> 100 * m" "100 * m < 2 ^ l"
    by (simp_all add: l_def)
  then have "2 ^ (52 + (l - 53)) \<le> 100 * m" "100 * m < 2 ^ (53 + (l - 53))"
    using e by simp_all
  then show ?thesis unfolding l_def [symmetric] by (simp only: power_add)
qed

lemma double_times_100_exact:
  assumes "bit_length (100 * m) \<le> 53"
  shows "double_times_100 (m, s) = (100 * m, 0, s)"
  using assms by (simp add: double_times_100_def round_half_even_def)

lemma bit_length_0: "bit_length 0 = 0"
  by (subst bit_length.simps) simp

lemma tenths_zero: "tenths 0 t = 0"
proof -
  have "double_quotient 0 t = (0, 0)" by (simp add: double_quotient_def)
  moreover have "double_times_100 (0, 0) = (0, 0, 0)"
    by (simp add: double_times_100_def bit_length_0 round_half_even_def)
  ultimately show ?thesis by (simp add: tenths_def toFixed1_tenths_def)
qed

lemma tenths_nearest:
  assumes "c \<le> t" "0 < t" "t < 2 ^ 32"
  shows "2 * \<bar>int (tenths c t) * int t - 1000 * int c\<bar> \<le> int t"
proof (cases "c = 0")
  case True
  then show ?thesis by (simp add: tenths_zero)
next
  case False
  then have c: "0 < c" by simp
  from double_quotient_facts [OF c assms(1)] obtain m s where
    dq: "double_quotient c t = (m, s)" and s: "52 \<le> s"
    and e1: "2 * \<bar>int m * int t - int c * 2 ^ s\<bar> \<le> int t" and m: "m \<le> 2 ^ 53"
    by blast
  from double_times_100_facts [OF m, of s] obtain m2 k where
    dt: "double_times_100 (m, s) = (m2, k, s)" and k: "k \<le> 7"
    and e2: "2 * \<bar>int m2 * 2 ^ k - 100 * int m\<bar> \<le> 2 ^ k"
    by blast
  define n where "n = tenths c t"
  define A K :: int where "A = 2 ^ s" and "K = 2 ^ k"
  define T C M M2 N :: int where "T = int t" and "C = int c" and "M = int m"
    and "M2 = int m2" and "N = int n"
  have n: "n = (20 * m2 * 2 ^ k + 2 ^ s) div 2 ^ (s + 1)"
    by (simp add: n_def tenths_def dq dt toFixed1_tenths_def)
  have "(2::int) ^ 52 \<le> 2 ^ s" using s by (intro power_increasing) simp_all
  then have A52: "4503599627370496 \<le> A" by (simp add: A_def)
  have "(2::int) ^ k \<le> 2 ^ 7" using k by (intro power_increasing) simp_all
  then have K: "K \<le> 128" by (simp add: K_def)
  have T: "0 < T" "T < 4294967296" using assms by (simp_all add: T_def)
  define u v w where "u = 2 * (A * N) - 20 * (M2 * K)" and "v = M2 * K - 100 * M"
    and "w = M * T - C * A"
  have w: "2 * \<bar>w\<bar> \<le> T" using e1 by (simp add: w_def M_def T_def C_def A_def)
  have v: "2 * \<bar>v\<bar> \<le> K" using e2 by (simp add: v_def M2_def K_def M_def)
  have u: "\<bar>u\<bar> \<le> A"
  proof -
    define a b where "a = 20 * m2 * 2 ^ k + 2 ^ s" and "b = (2::nat) ^ (s + 1)"
    have "0 < b" by (simp add: b_def)
    then have "b * (a div b) \<le> a" "a < b * (a div b) + b"
      using dividend_less_times_div [of b a] by (simp_all add: add.commute)
    then have "int (b * (a div b)) \<le> int a" "int a < int (b * (a div b) + b)"
      by (simp_all only: of_nat_le_iff of_nat_less_iff)
    moreover have "int (a div b) = N" by (simp add: N_def n a_def b_def)
    moreover have "int b = 2 * A" by (simp add: b_def A_def)
    moreover have "int a = 20 * (M2 * K) + A" by (simp add: a_def M2_def K_def A_def)
    ultimately have "2 * (A * N) \<le> 20 * (M2 * K) + A"
      "20 * (M2 * K) + A < 2 * (A * N) + 2 * A"
      by simp_all
    then show ?thesis unfolding u_def by linarith
  qed
  define X where "X = N * T - 1000 * C"
  have id: "2 * (A * X) = T * u + 20 * (T * v) + 2000 * w"
    unfolding X_def u_def v_def w_def by algebra
  have "T * \<bar>u\<bar> \<le> T * A"
    using u T(1) by (intro mult_left_mono) simp_all
  moreover have "\<bar>T * u\<bar> = T * \<bar>u\<bar>" using T(1) by (simp add: abs_mult)
  ultimately have tu: "\<bar>T * u\<bar> \<le> T * A" by simp
  have "T * (2 * \<bar>v\<bar>) \<le> T * K"
    using v T(1) by (intro mult_left_mono) simp_all
  moreover have "2 * \<bar>T * v\<bar> = T * (2 * \<bar>v\<bar>)"
    using T(1) by (simp add: abs_mult)
  moreover have "T * K \<le> T * 128" using K T(1) by (intro mult_left_mono) simp_all
  ultimately have tv: "2 * \<bar>T * v\<bar> \<le> 128 * T" by simp
  define p q r g where "p = T * u" and "q = T * v" and "r = T * A" and "g = A * X"
  have big: "2 * \<bar>g\<bar> \<le> r + 2280 * T"
  proof -
    have "2 * g = p + 20 * q + 2000 * w" using id by (simp add: p_def q_def g_def)
    moreover have "\<bar>p\<bar> \<le> r" "2 * \<bar>q\<bar> \<le> 128 * T"
      using tu tv by (simp_all add: p_def q_def r_def)
    ultimately show ?thesis using w by linarith
  qed
  have "2 * \<bar>X\<bar> \<le> T"
  proof (rule ccontr)
    assume "\<not> 2 * \<bar>X\<bar> \<le> T"
    then have "T + 1 \<le> 2 * \<bar>X\<bar>" by linarith
    then have "A * (T + 1) \<le> A * (2 * \<bar>X\<bar>)"
      using A52 by (intro mult_left_mono) simp_all
    moreover have "A * (2 * \<bar>X\<bar>) = 2 * \<bar>g\<bar>" using A52 by (simp add: g_def abs_mult)
    moreover have "A * (T + 1) = r + A" unfolding r_def by algebra
    ultimately have "r + A \<le> r + 2280 * T" using big by linarith
    with A52 T(2) show False by linarith
  qed
  then show ?thesis by (simp add: X_def N_def T_def C_def n_def)
qed

lemma tenths_le_1000:
  assumes "c \<le> t" "0 < t" "t < 2 ^ 32"
  shows "tenths c t \<le> 1000"
proof (rule ccontr)
  assume "\<not> tenths c t \<le> 1000"
  then have "1001 \<le> tenths c t" by simp
  then have "1001 * t \<le> tenths c t * t" by (rule mult_right_mono) simp
  then have "int (1001 * t) \<le> int (tenths c t * t)" by (simp only: of_nat_le_iff)
  then have a: "1001 * int t \<le> int (tenths c t) * int t" by simp
  define x d where "x = int (tenths c t) * int t"
    and "d = \<bar>int (tenths c t) * int t - 1000 * int c\<bar>"
  have "1001 * int t \<le> x" "2 * d \<le> int t" "x - 1000 * int c \<le> d" "int c \<le> int t"
    "0 < int t"
    using a tenths_nearest [OF assms] assms by (simp_all add: x_def d_def)
  then show False by linarith
qed

lemma percent_fixed1_nearest:
  assumes "c \<le> t" "t < 2 ^ 32"
  shows "nearest_tenth_rate (percent_fixed1 c t) c t"
proof (cases "t = 0")
  case True
  then show ?thesis by (simp add: nearest_tenth_rate_def percent_fixed1_def)
next
  case False
  then have t: "0 < t" by simp
  have "tenths c t \<in> {0..1000}"
    using tenths_le_1000 [OF assms(1) t assms(2)] by simp
  moreover have "percent_fixed1 c t = fixed1 (tenths c t)"
    using t by (simp add: percent_fixed1_def)
  moreover note tenths_nearest [OF assms(1) t assms(2)]
  ultimately show ?thesis
    using False unfolding nearest_tenth_rate_def by auto
qed

lemma eighty_counts:
  "length eighty_todos = 80" "length (filter completed eighty_todos) = 23"
  "filter (\<lambda>todo. priority todo = high) eighty_todos = []"
  by (simp_all add: eighty_todos_def done_todo_def open_todo_def)

lemma tenths_23_80: "tenths 23 80 = 287"
proof -
  have bl: "bit_length 23 = 5" "bit_length 80 = 7" "bit_length 517913957147607000 = 59"
    by (simp_all add: bit_length.simps)
  have q: "double_quotient 23 80 = (5179139571476070, 54)"
    by (simp add: double_quotient_def bl round_half_even_def Let_def)
  have p: "double_times_100 (5179139571476070, 54) = (8092405580431359, 6, 54)"
    by (simp add: double_times_100_def bl round_half_even_def Let_def)
  show ?thesis
    by (simp add: tenths_def q p toFixed1_tenths_def)
qed

lemma fixed1_examples:
  "fixed1 287 = ascii ''28.7''" "fixed1 288 = ascii ''28.8''"
  by (simp_all add: fixed1_def decimal.simps digit_def ascii_def)

text \<open>
  C8, as the claim states it, fails: of 80 todos with 23 completed the exact rate is
  28.75, which rounds to 28.8, and the computed string is 28.7, because the double
  product is just below 28.75.
\<close>

theorem completion_rate_tie_counterexample:
  "completionRate eighty_todos = ascii ''28.7''
   \<and> rounded_percent 23 80 = ascii ''28.8''
   \<and> length eighty_todos = 80 \<and> length (filter completed eighty_todos) = 23"
  by (simp add: completionRate_def eighty_counts percent_fixed1_def tenths_23_80
      rounded_percent_def round_half_even_def fixed1_examples)

text \<open>
  C8, amended. For every todo list of fewer than \<open>2 ^ 32\<close> elements (the bound of an
  array), the overall completion rate and the rates of the high, medium and low groups
  are each "0.0" when the group is empty, and otherwise the one-decimal numeral of a
  tenth nearest to 100 times the completed todos of the group divided by its size: within
  one twentieth of it, so that only a value exactly halfway between two tenths can print
  as either.
\<close>

theorem completion_rates_nearest_tenth:
  assumes "length items < 2 ^ 32"
  shows "nearest_tenth_rate (completionRate items)
           (length (filter completed items)) (length items)
       \<and> nearest_tenth_rate (highCompletionRate items)
           (length (filter completed (filter (\<lambda>todo. priority todo = high) items)))
           (length (filter (\<lambda>todo. priority todo = high) items))
       \<and> nearest_tenth_rate (mediumCompletionRate items)
           (length (filter completed (filter (\<lambda>todo. priority todo = medium) items)))
           (length (filter (\<lambda>todo. priority todo = medium) items))
       \<and> nearest_tenth_rate (lowCompletionRate items)
           (length (filter completed (filter (\<lambda>todo. priority todo = low) items)))
           (length (filter (\<lambda>todo. priority todo = low) items))"
proof -
  have group: "nearest_tenth_rate (percent_fixed1 (length (filter completed g)) (length g))
      (length (filter completed g)) (length g)"
    if "length g \<le> length items" for g :: "'a TodoData_scheme list"
  proof (rule percent_fixed1_nearest)
    show "length (filter completed g) \<le> length g" by (rule length_filter_le)
    from that assms show "length g < 2 ^ 32" by simp
  qed
  show ?thesis
    unfolding completionRate_def highCompletionRate_def mediumCompletionRate_def
      lowCompletionRate_def Let_def
    by (intro conjI group) simp_all
qed

theorem completion_rates_nearest_tenth_witness:
  "length eighty_todos < 2 ^ 32
   \<and> completionRate eighty_todos = ascii ''28.7''
   \<and> nearest_tenth_rate (ascii ''28.7'') 23 80
   \<and> highCompletionRate eighty_todos = ascii ''0.0''
   \<and> nearest_tenth_rate (ascii ''0.0'') 0 0"
proof -
  have l: "length eighty_todos < 2 ^ 32" by (simp add: eighty_counts)
  have r: "completionRate eighty_todos = ascii ''28.7''"
    by (simp add: completionRate_def eighty_counts percent_fixed1_def tenths_23_80
        fixed1_examples)
  have h: "highCompletionRate eighty_todos = ascii ''0.0''"
    by (simp add: highCompletionRate_def eighty_counts percent_fixed1_def)
  from completion_rates_nearest_tenth [OF l] l r h show ?thesis
    by (simp add: eighty_counts)
qed

end
